theory Spec2Isabelle
  imports Main "HOL-Library.Sublist"
begin

section \<open>Python values, exceptions and runs\<close>

text \<open>
  The values that cross the pipeline of \<^verbatim>\<open>server.py\<close>: the JSON values of the request's
  \<^verbatim>\<open>params\<close>, Python's \<^verbatim>\<open>None\<close>, and the three kinds of callable the pipeline can meet
  (a builtin taken from \<^verbatim>\<open>__builtins__\<close>, the lambda bound to \<^verbatim>\<open>print\<close>, and a function
  object the snippet defines, named by an identifier of the interpreter). JSON floats
  are left out: no claim computes with them.
\<close>

datatype pyval =
    PNone
  | PBool bool
  | PInt int
  | PStr string
  | PList "pyval list"
  | PDict "(string \<times> pyval) list"
  | PBuiltin string
  | PPrintStub
  | PFunc nat

text \<open>
  Exceptions by what the \<^verbatim>\<open>except\<close> clauses of the source tell apart:
  \<^verbatim>\<open>SecurityError\<close> (the repository's subclass of \<^verbatim>\<open>Exception\<close>), any other instance of
  \<^verbatim>\<open>Exception\<close>, and an instance of \<^verbatim>\<open>BaseException\<close> that is not an \<^verbatim>\<open>Exception\<close>
  (\<^verbatim>\<open>SystemExit\<close>, \<^verbatim>\<open>KeyboardInterrupt\<close>, \<^verbatim>\<open>GeneratorExit\<close>, \<^verbatim>\<open>BaseException\<close> itself).
  The string is \<^verbatim>\<open>str(e)\<close>.
\<close>

datatype exn =
    SecurityError string
  | OtherException string
  | NonException string

fun exn_str :: "exn \<Rightarrow> string" where
  "exn_str (SecurityError m) = m"
| "exn_str (OtherException m) = m"
| "exn_str (NonException m) = m"

text \<open>
  What running a piece of Python in the worker process does: it returns, it raises, it
  has not finished when the deadline of \<^verbatim>\<open>asyncio.wait_for\<close> passes, or the worker process
  is terminated under it (the kernel's signal at the CPU limit, a crash of the
  interpreter) before the deadline.
\<close>

datatype 'a run = Returns 'a | Raises exn | Hangs | Killed

type_synonym globals = "string \<rightharpoonup> pyval"

section \<open>ExecutionResult\<close>

text \<open>
  The dataclass \<^verbatim>\<open>ExecutionResult\<close>. \<^verbatim>\<open>result: Any | None\<close> is a Python value, \<^verbatim>\<open>PNone\<close>
  when the field is \<^verbatim>\<open>None\<close>; \<^verbatim>\<open>error\<close> and \<^verbatim>\<open>traceback\<close> are \<^verbatim>\<open>str | None\<close>.
\<close>

record ExecutionResult =
  status :: string
  result :: pyval
  error :: "string option"
  traceback :: "string option"




section \<open>Constants of the module\<close>

definition SAFE_BUILTINS :: "string list" where
  "SAFE_BUILTINS =
     [''abs'', ''all'', ''any'', ''ascii'', ''bin'', ''bool'', ''bytearray'', ''bytes'',
      ''chr'', ''complex'', ''dict'', ''divmod'', ''enumerate'', ''filter'', ''float'',
      ''format'', ''frozenset'', ''hash'', ''hex'', ''int'', ''isinstance'', ''issubclass'',
      ''iter'', ''len'', ''list'', ''map'', ''max'', ''min'', ''next'', ''oct'', ''ord'',
      ''pow'', ''print'', ''range'', ''repr'', ''reversed'', ''round'', ''set'', ''slice'',
      ''sorted'', ''str'', ''sum'', ''tuple'', ''type'', ''zip'']"

definition FORBIDDEN_MODULES :: "string set" where
  "FORBIDDEN_MODULES =
     {''os'', ''sys'', ''subprocess'', ''socket'', ''requests'', ''urllib'',
      ''pathlib'', ''pickle'', ''shutil'', ''importlib'', ''builtins''}"

datatype rlimit = RLIMIT_CPU | RLIMIT_AS | RLIMIT_FSIZE | RLIMIT_NPROC | RLIMIT_NOFILE

definition CPU_TIME :: nat where "CPU_TIME = 1"
definition MEMORY :: nat where "MEMORY = 100 * 1024 * 1024"
definition FILE_SIZE :: nat where "FILE_SIZE = 1024 * 1024"
definition PROCESSES :: nat where "PROCESSES = 1"
definition OPEN_FILES :: nat where "OPEN_FILES = 10"

section \<open>The interpreter and the operating system\<close>

text \<open>
  Everything \<^verbatim>\<open>server.py\<close> calls and does not define is a field of the host:
  \<^item> \<open>setrlimit\<close>: \<^verbatim>\<open>resource.setrlimit(kind, (soft, hard))\<close>; \<open>Some m\<close> when it raises
    (\<^verbatim>\<open>ValueError\<close> or \<^verbatim>\<open>OSError\<close>, both instances of \<^verbatim>\<open>Exception\<close>) with \<^verbatim>\<open>str(e) = m\<close>;
  \<^item> \<open>iter_forbidden\<close>: the order in which this process iterates the set
    \<^verbatim>\<open>FORBIDDEN_MODULES\<close> (Python leaves the order of a set of strings open);
  \<^item> \<open>compile_src\<close>: \<^verbatim>\<open>compile(code, '<string>', 'exec')\<close>; \<open>Some m\<close> when it raises
    (\<^verbatim>\<open>SyntaxError\<close>, \<^verbatim>\<open>ValueError\<close>, ..., all instances of \<^verbatim>\<open>Exception\<close>);
  \<^item> \<open>exec_unit\<close>: \<^verbatim>\<open>exec(compiled_code, globals_dict)\<close>, which updates the globals in
    place: the model returns them updated. \<^verbatim>\<open>globals_dict.update(params)\<close> has put the
    objects of \<^verbatim>\<open>params\<close> themselves into the globals, so the top-level code of the unit
    can change them: \<open>exec_unit\<close> is also given \<^verbatim>\<open>params\<close> and returns it as it stands
    when the unit has run;
  \<^item> \<open>call_callable\<close>: calling a callable value with keyword arguments; a function
    the unit defines runs under the globals of the unit, the first argument;
  \<^item> \<open>format_exc\<close>: \<^verbatim>\<open>traceback.format_exc()\<close> while the exception is handled;
  \<^item> \<open>pickle_callable\<close>: pickling a callable value, which the process pool does to
    send the worker's result back; \<open>Some m\<close> when it raises (\<^verbatim>\<open>PicklingError\<close>,
    \<^verbatim>\<open>AttributeError\<close>, \<^verbatim>\<open>TypeError\<close>, all instances of \<^verbatim>\<open>Exception\<close>) with \<^verbatim>\<open>str(e) = m\<close>.
\<close>

record host =
  setrlimit :: "rlimit \<Rightarrow> nat \<times> nat \<Rightarrow> string option"
  iter_forbidden :: "string list"
  compile_src :: "string \<Rightarrow> string option"
  exec_unit :: "string \<Rightarrow> globals \<Rightarrow> globals \<Rightarrow> (globals \<times> globals) run"
  call_callable :: "globals \<Rightarrow> pyval \<Rightarrow> globals \<Rightarrow> pyval run"
  format_exc :: "exn \<Rightarrow> string"
  pickle_callable :: "pyval \<Rightarrow> string option"

definition host_ok :: "host \<Rightarrow> bool" where
  "host_ok h = (set (iter_forbidden h) = FORBIDDEN_MODULES \<and> distinct (iter_forbidden h))"

section \<open>set\_resource\_limits\<close>

text \<open>
  Five calls in sequence; the first that raises ends the function, and the handler
  re-raises the exception after logging it. \<open>Some m\<close> is that exception.
\<close>

definition set_resource_limits :: "host \<Rightarrow> string option" where
  "set_resource_limits h =
     (case setrlimit h RLIMIT_CPU (CPU_TIME, CPU_TIME) of Some m \<Rightarrow> Some m | None \<Rightarrow>
     (case setrlimit h RLIMIT_AS (MEMORY, MEMORY) of Some m \<Rightarrow> Some m | None \<Rightarrow>
     (case setrlimit h RLIMIT_FSIZE (FILE_SIZE, FILE_SIZE) of Some m \<Rightarrow> Some m | None \<Rightarrow>
     (case setrlimit h RLIMIT_NPROC (PROCESSES, PROCESSES) of Some m \<Rightarrow> Some m | None \<Rightarrow>
      setrlimit h RLIMIT_NOFILE (OPEN_FILES, OPEN_FILES)))))"

section \<open>create\_safe\_globals\<close>

text \<open>
  \<^verbatim>\<open>getattr(__builtins__, name)\<close> is the builtin of that name (the module runs as the
  entry script, where \<^verbatim>\<open>__builtins__\<close> is the module \<^verbatim>\<open>builtins\<close>). The order of the
  inner dict, built from a set, is not observable by any property below.
\<close>

definition create_safe_globals :: globals where
  "create_safe_globals =
     [''__builtins__'' \<mapsto> PDict (map (\<lambda>name. (name, PBuiltin name)) SAFE_BUILTINS),
      ''print'' \<mapsto> PPrintStub]"

section \<open>validate\_code\<close>

text \<open>
  \<^verbatim>\<open>needle in code\<close> on Python strings is the substring test. The needles are ASCII, so
  the test on the UTF-8 bytes of the text agrees with the test on its code points.
\<close>

fun py_in :: "string \<Rightarrow> string \<Rightarrow> bool" where
  "py_in needle [] = (needle = [])"
| "py_in needle (c # cs) = (prefix needle (c # cs) \<or> py_in needle cs)"

definition import_message :: "string \<Rightarrow> string" where
  "import_message m = ''Importing module '' @ [CHR 0x27] @ m @ [CHR 0x27] @ '' is not allowed''"

text \<open>The loop over \<^verbatim>\<open>FORBIDDEN_MODULES\<close>, in the order the host iterates the set.\<close>

fun check_modules :: "string list \<Rightarrow> string \<Rightarrow> exn + unit" where
  "check_modules [] code = Inr ()"
| "check_modules (m # ms) code =
     (if py_in (''import '' @ m) code \<or> py_in (''from '' @ m) code
      then Inl (SecurityError (import_message m))
      else check_modules ms code)"

definition validate_code :: "host \<Rightarrow> string \<Rightarrow> exn + unit" where
  "validate_code h code =
     (case check_modules (iter_forbidden h) code of
        Inl e \<Rightarrow> Inl e
      | Inr _ \<Rightarrow>
          if py_in ''eval('' code \<or> py_in ''exec('' code
          then Inl (SecurityError ''Using eval() or exec() is not allowed'')
          else if py_in ''open('' code \<or> py_in ''file('' code
          then Inl (SecurityError ''File operations are not allowed'')
          else Inr ())"

section \<open>CodeExecutor\<close>

text \<open>
  Calling a value. A data value (\<open>data_type_name\<close> gives the name of its type) is not
  callable: the call raises \<^verbatim>\<open>TypeError\<close>, an instance of \<^verbatim>\<open>Exception\<close>. The lambda bound
  to \<^verbatim>\<open>print\<close> returns \<^verbatim>\<open>None\<close> whatever it is given.
\<close>

fun data_type_name :: "pyval \<Rightarrow> string option" where
  "data_type_name PNone = Some ''NoneType''"
| "data_type_name (PBool _) = Some ''bool''"
| "data_type_name (PInt _) = Some ''int''"
| "data_type_name (PStr _) = Some ''str''"
| "data_type_name (PList _) = Some ''list''"
| "data_type_name (PDict _) = Some ''dict''"
| "data_type_name (PBuiltin _) = None"
| "data_type_name PPrintStub = None"
| "data_type_name (PFunc _) = None"

definition not_callable :: "string \<Rightarrow> exn" where
  "not_callable t = OtherException ([CHR 0x27] @ t @ [CHR 0x27] @ '' object is not callable'')"

definition py_call :: "host \<Rightarrow> globals \<Rightarrow> pyval \<Rightarrow> globals \<Rightarrow> pyval run" where
  "py_call h g f kwargs =
     (case data_type_name f of
        Some t \<Rightarrow> Raises (not_callable t)
      | None \<Rightarrow> if f = PPrintStub then Returns PNone else call_callable h g f kwargs)"

text \<open>
  What the pipeline starts, in order: compiling the text, executing the compiled unit
  under some globals, calling a value (under the globals of the unit as they stand)
  with keyword arguments.
\<close>

datatype event = EvCompile string | EvExec string globals | EvCall globals pyval globals

definition error_result :: "string \<Rightarrow> string option \<Rightarrow> ExecutionResult" where
  "error_result m tb = \<lparr>status = ''error'', result = PNone, error = Some m, traceback = tb\<rparr>"

definition success_result :: "pyval \<Rightarrow> ExecutionResult" where
  "success_result v = \<lparr>status = ''success'', result = v, error = None, traceback = None\<rparr>"

text \<open>
  The two \<^verbatim>\<open>except\<close> clauses of \<^verbatim>\<open>_execute_code_safely\<close>: \<^verbatim>\<open>except SecurityError\<close>, then
  \<^verbatim>\<open>except Exception\<close>. An exception that is an instance of neither leaves the function.
\<close>

fun handle_exn :: "host \<Rightarrow> exn \<Rightarrow> ExecutionResult run" where
  "handle_exn h (SecurityError m) = Returns (error_result (''Security violation: '' @ m) None)"
| "handle_exn h (OtherException m) =
     Returns (error_result m (Some (format_exc h (OtherException m))))"
| "handle_exn h (NonException m) = Raises (NonException m)"

text \<open>
  \<^verbatim>\<open>CodeExecutor._execute_code_safely\<close> (an Isabelle name cannot start with an underscore).
  The first component is what the call does; the second lists what it started. A
  failure of \<^verbatim>\<open>set_resource_limits\<close> or of \<^verbatim>\<open>compile\<close> is an instance of \<^verbatim>\<open>Exception\<close>, and
  goes through the handlers like any other. \<^verbatim>\<open>globals_dict['main'](**params)\<close> reads
  \<^verbatim>\<open>params\<close> when the unit has run: \<open>params'\<close>.
\<close>

definition execute_code_safely :: "host \<Rightarrow> string \<Rightarrow> globals \<Rightarrow> ExecutionResult run \<times> event list" where
  "execute_code_safely h code params =
     (case set_resource_limits h of
        Some m \<Rightarrow> (handle_exn h (OtherException m), [])
      | None \<Rightarrow>
     (case validate_code h code of
        Inl e \<Rightarrow> (handle_exn h e, [])
      | Inr _ \<Rightarrow>
     (let globals_dict = create_safe_globals ++ params in
      case compile_src h code of
        Some m \<Rightarrow> (handle_exn h (OtherException m), [EvCompile code])
      | None \<Rightarrow>
     (case exec_unit h code globals_dict params of
        Raises e \<Rightarrow> (handle_exn h e, [EvCompile code, EvExec code globals_dict])
      | Hangs \<Rightarrow> (Hangs, [EvCompile code, EvExec code globals_dict])
      | Killed \<Rightarrow> (Killed, [EvCompile code, EvExec code globals_dict])
      | Returns (globals_dict', params') \<Rightarrow>
     (case globals_dict' ''main'' of
        None \<Rightarrow> (Returns (error_result ''No main function defined'' None),
                  [EvCompile code, EvExec code globals_dict])
      | Some main \<Rightarrow>
          (let tr = [EvCompile code, EvExec code globals_dict,
                     EvCall globals_dict' main params'] in
           case py_call h globals_dict' main params' of
             Raises e \<Rightarrow> (handle_exn h e, tr)
           | Hangs \<Rightarrow> (Hangs, tr)
           | Killed \<Rightarrow> (Killed, tr)
           | Returns v \<Rightarrow> (Returns (success_result v), tr)))))))"

text \<open>
  The process pool pickles the \<^verbatim>\<open>ExecutionResult\<close> the worker returns. Its strings and
  the data in \<^verbatim>\<open>result\<close> always pickle; a callable in \<^verbatim>\<open>result\<close> pickles or not as the host
  says (the lambda bound to \<^verbatim>\<open>print\<close> and a function defined by the unit do not). The
  first failure, if any, is the exception of the pickling: \<open>pickle_error h v\<close> for the
  value \<open>v\<close> of the field \<^verbatim>\<open>result\<close>.
\<close>

fun callables_in :: "pyval \<Rightarrow> pyval list" where
  "callables_in PNone = []"
| "callables_in (PBool _) = []"
| "callables_in (PInt _) = []"
| "callables_in (PStr _) = []"
| "callables_in (PList vs) = concat (map callables_in vs)"
| "callables_in (PDict kvs) = concat (map (\<lambda>kv. callables_in (snd kv)) kvs)"
| "callables_in (PBuiltin n) = [PBuiltin n]"
| "callables_in PPrintStub = [PPrintStub]"
| "callables_in (PFunc i) = [PFunc i]"

fun first_error :: "string option list \<Rightarrow> string option" where
  "first_error [] = None"
| "first_error (Some m # ms) = Some m"
| "first_error (None # ms) = first_error ms"

definition pickle_error :: "host \<Rightarrow> pyval \<Rightarrow> string option" where
  "pickle_error h v = first_error (map (pickle_callable h) (callables_in v))"

text \<open>
  \<^verbatim>\<open>execute_code_in_process\<close> awaits the worker's future with the deadline
  \<^verbatim>\<open>RESOURCE_LIMITS['CPU_TIME']\<close>. The future holds what the pool delivers:
  \<^item> the record the worker returned, when it pickles;
  \<^item> the exception of the pickling, when it does not;
  \<^item> the exception that left the worker's call;
  \<^item> \<^verbatim>\<open>BrokenProcessPool\<close>, an instance of \<^verbatim>\<open>Exception\<close>, when the worker process was
    terminated;
  \<^item> \<^verbatim>\<open>asyncio.TimeoutError\<close> when the worker has not answered at the deadline, caught by
    the first \<^verbatim>\<open>except\<close> clause.
  The second clause, \<^verbatim>\<open>except Exception\<close>, is \<open>handle_future_exn\<close>. The arguments, a
  string and the JSON values of the request, always pickle.
  \<open>Inl e\<close>: the exception \<open>e\<close> leaves \<^verbatim>\<open>execute_code_in_process\<close>.
  Neither the moment at which the coroutine returns nor the life of the worker process
  after the deadline is part of the model.
\<close>

definition timeout_result :: ExecutionResult where
  "timeout_result = error_result ''Execution timeout'' None"

definition broken_pool_message :: string where
  "broken_pool_message =
     ''A process in the process pool was terminated abruptly while the future was running or pending.''"

fun handle_future_exn :: "host \<Rightarrow> exn \<Rightarrow> exn + ExecutionResult" where
  "handle_future_exn h (NonException m) = Inl (NonException m)"
| "handle_future_exn h e = Inr (error_result (exn_str e) (Some (format_exc h e)))"

definition execute_code_in_process :: "host \<Rightarrow> string \<Rightarrow> globals \<Rightarrow> exn + ExecutionResult" where
  "execute_code_in_process h code params =
     (case fst (execute_code_safely h code params) of
        Returns r \<Rightarrow>
          (case pickle_error h (result r) of
             None \<Rightarrow> Inr r
           | Some m \<Rightarrow> handle_future_exn h (OtherException m))
      | Hangs \<Rightarrow> Inr timeout_result
      | Killed \<Rightarrow> handle_future_exn h (OtherException broken_pool_message)
      | Raises e \<Rightarrow> handle_future_exn h e)"

definition events :: "host \<Rightarrow> string \<Rightarrow> globals \<Rightarrow> event list" where
  "events h code params = snd (execute_code_safely h code params)"

section \<open>The validator in the spec's words\<close>

text \<open>
  Section 4.1 of the spec speaks of statements and calls, not of substrings. Read
  lexically: a statement starts after a newline, a semicolon or a colon; it is
  import-like when its first word is \<^verbatim>\<open>import\<close> or \<^verbatim>\<open>from\<close>; its targets are the
  module names that follow (aliases after \<^verbatim>\<open>as\<close> left out), and a denylisted name is a
  target when the target is that module or one of its submodules. A call of a
  primitive is its name, not part of a longer identifier or an attribute, followed
  by an opening parenthesis.
\<close>

fun split_on :: "(char \<Rightarrow> bool) \<Rightarrow> string \<Rightarrow> string list" where
  "split_on sep [] = [[]]"
| "split_on sep (c # cs) =
     (case split_on sep cs of
        [] \<Rightarrow> [[]]
      | w # ws \<Rightarrow> if sep c then [] # w # ws else (c # w) # ws)"

definition spec_statements :: "string \<Rightarrow> string list" where
  "spec_statements code = split_on (\<lambda>c. c = CHR 0x0A \<or> c = CHR '';'' \<or> c = CHR '':'') code"

definition spec_words :: "string \<Rightarrow> string list" where
  "spec_words stmt =
     filter (\<lambda>w. w \<noteq> [])
       (split_on (\<lambda>c. c = CHR '' '' \<or> c = CHR 0x09 \<or> c = CHR '','') stmt)"

fun drop_aliases :: "string list \<Rightarrow> string list" where
  "drop_aliases [] = []"
| "drop_aliases (w # ws) = (if w = ''as'' then drop_aliases (tl ws) else w # drop_aliases ws)"

definition spec_import_targets :: "string \<Rightarrow> string list" where
  "spec_import_targets stmt =
     (case spec_words stmt of
        [] \<Rightarrow> []
      | k # rest \<Rightarrow>
          if k = ''import'' then drop_aliases rest
          else if k = ''from'' then take 1 rest
          else [])"

definition names_module :: "string \<Rightarrow> string \<Rightarrow> bool" where
  "names_module m target = (target = m \<or> prefix (m @ ''.'') target)"

definition spec_denylisted_import :: "string \<Rightarrow> bool" where
  "spec_denylisted_import code =
     (\<exists>stmt \<in> set (spec_statements code). \<exists>t \<in> set (spec_import_targets stmt).
        \<exists>m \<in> FORBIDDEN_MODULES. names_module m t)"

definition ident_char :: "char \<Rightarrow> bool" where
  "ident_char c =
     (c \<in> set ''abcdefghijklmnopqrstuvwxyzABCDEFGHIJKLMNOPQRSTUVWXYZ0123456789_'')"

text \<open>\<open>spec_calls name prev text\<close>: \<open>prev\<close> is the character before the text, if any.\<close>

fun spec_calls :: "string \<Rightarrow> char option \<Rightarrow> string \<Rightarrow> bool" where
  "spec_calls name prev [] = False"
| "spec_calls name prev (c # cs) =
     ((prefix (name @ ''('') (c # cs) \<and>
       (case prev of None \<Rightarrow> True | Some p \<Rightarrow> \<not> ident_char p \<and> p \<noteq> CHR ''.''))
      \<or> spec_calls name (Some c) cs)"

definition spec_dynamic_eval :: "string \<Rightarrow> bool" where
  "spec_dynamic_eval code = (spec_calls ''eval'' None code \<or> spec_calls ''exec'' None code)"

definition spec_opens_file :: "string \<Rightarrow> bool" where
  "spec_opens_file code = (spec_calls ''open'' None code \<or> spec_calls ''file'' None code)"

section \<open>What validate\_code tests\<close>

definition textual_import :: "string \<Rightarrow> string \<Rightarrow> bool" where
  "textual_import m code = (py_in (''import '' @ m) code \<or> py_in (''from '' @ m) code)"

definition textual_denylisted :: "string \<Rightarrow> bool" where
  "textual_denylisted code = (\<exists>m \<in> FORBIDDEN_MODULES. textual_import m code)"

definition textual_eval :: "string \<Rightarrow> bool" where
  "textual_eval code = (py_in ''eval('' code \<or> py_in ''exec('' code)"

definition textual_file :: "string \<Rightarrow> bool" where
  "textual_file code = (py_in ''open('' code \<or> py_in ''file('' code)"

section \<open>A concrete interpreter for the scenarios\<close>

text \<open>
  The snippets of the scenarios, and what Python does with each of them.
  \<^item> \<open>snippet_sum\<close> is scenario 1 of the spec.
  \<^item> \<open>snippet_os\<close> is scenario 2.
  \<^item> \<open>snippet_assign\<close> binds \<^verbatim>\<open>x\<close> and defines no function.
  \<^item> \<open>snippet_sysconfig\<close> imports the standard module \<^verbatim>\<open>sysconfig\<close>.
  \<^item> \<open>snippet_retrieval\<close> calls a function whose name ends in \<^verbatim>\<open>eval\<close>.
  \<^item> \<open>snippet_import_list\<close> imports two modules in one statement; executed under the
    restricted builtins, which have no \<^verbatim>\<open>__import__\<close>, the statement raises \<^verbatim>\<open>ImportError\<close>.
  \<^item> \<open>snippet_pass\<close> defines a \<^verbatim>\<open>main\<close> that returns \<^verbatim>\<open>None\<close>.
  \<^item> \<open>snippet_probe\<close> defines a \<^verbatim>\<open>main\<close> that accepts any keyword arguments and returns
    what the global name \<^verbatim>\<open>print\<close> is bound to.
  \<^item> \<open>snippet_append\<close> appends to the list \<^verbatim>\<open>xs\<close> at top level, and defines a \<^verbatim>\<open>main\<close> that
    returns its argument \<^verbatim>\<open>xs\<close>.
  \<^item> \<open>snippet_base\<close> defines a \<^verbatim>\<open>main\<close> that finds the class \<^verbatim>\<open>BaseException\<close> among the
    subclasses of \<^verbatim>\<open>object\<close> (attribute access needs no builtin) and raises an instance.
\<close>

definition snippet_sum :: string where
  "snippet_sum = ''def main(x, y): return {'sum': x+y}''"

definition snippet_os :: string where
  "snippet_os = ''import os\<newline>def main(): return os.listdir('.')''"

definition snippet_assign :: string where
  "snippet_assign = ''x = 1''"

definition snippet_pass :: string where
  "snippet_pass = ''def main(): pass''"

definition snippet_base :: string where
  "snippet_base =
     ''def main():\<newline>'' @
     ''    for c in ().__class__.__base__.__subclasses__():\<newline>'' @
     ''        if c.__name__ == 'BaseException':\<newline>'' @
     ''            raise c('boom')''"

definition snippet_sysconfig :: string where
  "snippet_sysconfig = ''import sysconfig''"

definition snippet_import_list :: string where
  "snippet_import_list = ''import json, os''"

definition snippet_retrieval :: string where
  "snippet_retrieval = ''x = retrieval(1)''"

definition snippet_probe :: string where
  "snippet_probe = ''def main(**kw): return print''"

definition snippet_append :: string where
  "snippet_append = ''xs.append(2)\<newline>def main(xs): return xs''"

definition demo_exec :: "string \<Rightarrow> globals \<Rightarrow> globals \<Rightarrow> (globals \<times> globals) run" where
  "demo_exec code g params =
     (if code = snippet_sum then Returns (g(''main'' \<mapsto> PFunc 0), params)
      else if code = snippet_pass then Returns (g(''main'' \<mapsto> PFunc 1), params)
      else if code = snippet_base then Returns (g(''main'' \<mapsto> PFunc 2), params)
      else if code = snippet_assign then Returns (g(''x'' \<mapsto> PInt 1), params)
      else if code = snippet_import_list then Raises (OtherException ''__import__ not found'')
      else if code = snippet_probe then Returns (g(''main'' \<mapsto> PFunc 3), params)
      else if code = snippet_append then
        (case g ''xs'' of
           Some (PList vs) \<Rightarrow>
             Returns (g(''xs'' \<mapsto> PList (vs @ [PInt 2]), ''main'' \<mapsto> PFunc 4),
                      if params ''xs'' = Some (PList vs)
                      then params(''xs'' \<mapsto> PList (vs @ [PInt 2])) else params)
         | _ \<Rightarrow> Raises (OtherException ''unsupported''))
      else Raises (OtherException ''unsupported''))"

definition demo_call :: "globals \<Rightarrow> pyval \<Rightarrow> globals \<Rightarrow> pyval run" where
  "demo_call g f kwargs =
     (if f = PFunc 0 then
        (case (kwargs ''x'', kwargs ''y'') of
           (Some (PInt a), Some (PInt b)) \<Rightarrow> Returns (PDict [(''sum'', PInt (a + b))])
         | _ \<Rightarrow> Raises (OtherException ''unsupported''))
      else if f = PFunc 1 then Returns PNone
      else if f = PFunc 2 then Raises (NonException ''boom'')
      else if f = PFunc 3 then
        (case g ''print'' of
           Some v \<Rightarrow> Returns v
         | None \<Rightarrow> Raises (OtherException ''unsupported''))
      else if f = PFunc 4 then
        (case kwargs ''xs'' of
           Some v \<Rightarrow> Returns v
         | None \<Rightarrow> Raises (OtherException ''unsupported''))
      else Raises (OtherException ''unsupported''))"

text \<open>
  Builtin functions pickle by name. The lambda of \<^verbatim>\<open>create_safe_globals\<close> is a local
  object, and a function defined by the unit belongs to no importable module: pickling
  either raises.
\<close>

definition demo_pickle :: "pyval \<Rightarrow> string option" where
  "demo_pickle v =
     (case v of
        PPrintStub \<Rightarrow>
          Some (''Can't pickle local object '' @ [CHR 0x27] @
                ''create_safe_globals.<locals>.<lambda>'' @ [CHR 0x27])
      | PFunc i \<Rightarrow> Some ''Can't pickle function: attribute lookup on __main__ failed''
      | _ \<Rightarrow> None)"

definition demo_host :: host where
  "demo_host =
     \<lparr>setrlimit = (\<lambda>k lim. None),
      iter_forbidden =
        [''os'', ''sys'', ''subprocess'', ''socket'', ''requests'', ''urllib'',
         ''pathlib'', ''pickle'', ''shutil'', ''importlib'', ''builtins''],
      compile_src = (\<lambda>code. None),
      exec_unit = demo_exec,
      call_callable = demo_call,
      format_exc = (\<lambda>e. ''Traceback (most recent call last): '' @ exn_str e),
      pickle_callable = demo_pickle\<rparr>"

text \<open>The same interpreter on a system that refuses the address-space limit.\<close>

definition no_memory_limit_host :: host where
  "no_memory_limit_host =
     demo_host\<lparr>setrlimit :=
       (\<lambda>k lim. if k = RLIMIT_AS then Some ''current limit exceeds maximum limit'' else None)\<rparr>"

definition params_xy :: globals where
  "params_xy = [''x'' \<mapsto> PInt 10, ''y'' \<mapsto> PInt 20]"

definition params_xs :: globals where
  "params_xs = [''xs'' \<mapsto> PList [PInt 1]]"



section \<open>The substring test\<close>

text \<open>\<open>py_in\<close> is the contiguous-sublist relation of the library.\<close>

lemma py_in_iff: "py_in n hay \<longleftrightarrow> (\<exists>p s. hay = p @ n @ s)"
proof (induction hay)
  case Nil
  then show ?case by auto
next
  case (Cons c cs)
  show ?case
  proof
    assume "py_in n (c # cs)"
    then consider "prefix n (c # cs)" | "py_in n cs" by auto
    then show "\<exists>p s. c # cs = p @ n @ s"
    proof cases
      case 1
      then obtain s where "c # cs = n @ s" by (auto simp: prefix_def)
      then have "c # cs = [] @ n @ s" by simp
      then show ?thesis by blast
    next
      case 2
      with Cons.IH obtain p s where "cs = p @ n @ s" by blast
      then have "c # cs = (c # p) @ n @ s" by simp
      then show ?thesis by blast
    qed
  next
    assume "\<exists>p s. c # cs = p @ n @ s"
    then obtain p s where ps: "c # cs = p @ n @ s" by blast
    show "py_in n (c # cs)"
    proof (cases p)
      case Nil
      with ps have "prefix n (c # cs)" by (simp add: prefix_def)
      then show ?thesis by simp
    next
      case (Cons a p')
      with ps have "cs = p' @ n @ s" by simp
      with Cons.IH have "py_in n cs" by blast
      then show ?thesis by simp
    qed
  qed
qed

lemma py_in_sublist: "py_in n hay = sublist n hay"
  by (simp add: py_in_iff sublist_def)

lemma message_names_module: "py_in m (''Security violation: '' @ import_message m)"
proof -
  have "''Security violation: '' @ import_message m =
        (''Security violation: Importing module '' @ [CHR 0x27]) @ m @ ([CHR 0x27] @ '' is not allowed'')"
    by (simp add: import_message_def)
  then show ?thesis unfolding py_in_iff by blast
qed

section \<open>Facts about validate\_code\<close>

text \<open>
  Whether the loop over the set rejects does not depend on the order of iteration; the
  module it names is one whose pattern occurs in the text.
\<close>

lemma check_modules_Inr:
  "(check_modules ms code = Inr ()) = (\<forall>m \<in> set ms. \<not> textual_import m code)"
  by (induction ms) (auto simp: textual_import_def)

lemma check_modules_Inl:
  "check_modules ms code = Inl e \<Longrightarrow>
     \<exists>m \<in> set ms. textual_import m code \<and> e = SecurityError (import_message m)"
  by (induction ms) (auto simp: textual_import_def split: if_splits)

lemma check_modules_cases:
  assumes "host_ok h"
  shows "(\<not> textual_denylisted code \<and> check_modules (iter_forbidden h) code = Inr ()) \<or>
         (\<exists>m \<in> FORBIDDEN_MODULES. textual_import m code \<and>
            check_modules (iter_forbidden h) code = Inl (SecurityError (import_message m)))"
proof (cases "check_modules (iter_forbidden h) code")
  case (Inl e)
  from check_modules_Inl [OF Inl] assms show ?thesis
    using Inl by (auto simp: host_ok_def)
next
  case (Inr u)
  then have "check_modules (iter_forbidden h) code = Inr ()" by simp
  with assms show ?thesis
    by (auto simp: check_modules_Inr host_ok_def textual_denylisted_def)
qed

lemma validate_code_denylisted:
  assumes "host_ok h" and "textual_denylisted code"
  shows "\<exists>m \<in> FORBIDDEN_MODULES. textual_import m code \<and>
           validate_code h code = Inl (SecurityError (import_message m))"
  using check_modules_cases [OF assms(1), of code] assms(2)
  by (auto simp: validate_code_def)

lemma validate_code_not_denylisted:
  assumes "host_ok h" and "\<not> textual_denylisted code"
  shows "validate_code h code =
           (if textual_eval code then Inl (SecurityError ''Using eval() or exec() is not allowed'')
            else if textual_file code then Inl (SecurityError ''File operations are not allowed'')
            else Inr ())"
  using check_modules_cases [OF assms(1), of code] assms(2)
  by (auto simp: validate_code_def textual_eval_def textual_file_def textual_denylisted_def)

section \<open>Facts about the pipeline\<close>

lemma set_resource_limits_None:
  "(set_resource_limits h = None) =
     (setrlimit h RLIMIT_CPU (CPU_TIME, CPU_TIME) = None \<and>
      setrlimit h RLIMIT_AS (MEMORY, MEMORY) = None \<and>
      setrlimit h RLIMIT_FSIZE (FILE_SIZE, FILE_SIZE) = None \<and>
      setrlimit h RLIMIT_NPROC (PROCESSES, PROCESSES) = None \<and>
      setrlimit h RLIMIT_NOFILE (OPEN_FILES, OPEN_FILES) = None)"
  by (simp add: set_resource_limits_def split: option.splits)

lemma limits_fail_run:
  assumes "set_resource_limits h = Some m"
  shows "execute_code_safely h code params =
           (Returns (error_result m (Some (format_exc h (OtherException m)))), [])"
  using assms by (simp add: execute_code_safely_def)

lemma rejected_run:
  assumes "set_resource_limits h = None" and "validate_code h code = Inl (SecurityError m)"
  shows "execute_code_safely h code params =
           (Returns (error_result (''Security violation: '' @ m) None), [])"
  using assms by (simp add: execute_code_safely_def)

lemma compiled_run:
  assumes "set_resource_limits h = None" and "validate_code h code = Inr ()"
    and "compile_src h code = None"
  shows "execute_code_safely h code params =
           (case exec_unit h code (create_safe_globals ++ params) params of
              Raises e \<Rightarrow>
                (handle_exn h e, [EvCompile code, EvExec code (create_safe_globals ++ params)])
            | Hangs \<Rightarrow> (Hangs, [EvCompile code, EvExec code (create_safe_globals ++ params)])
            | Killed \<Rightarrow> (Killed, [EvCompile code, EvExec code (create_safe_globals ++ params)])
            | Returns (g, params') \<Rightarrow>
                (case g ''main'' of
                   None \<Rightarrow> (Returns (error_result ''No main function defined'' None),
                             [EvCompile code, EvExec code (create_safe_globals ++ params)])
                 | Some main \<Rightarrow>
                     (case py_call h g main params' of
                        Raises e \<Rightarrow> handle_exn h e
                      | Hangs \<Rightarrow> Hangs
                      | Killed \<Rightarrow> Killed
                      | Returns v \<Rightarrow> Returns (success_result v),
                      [EvCompile code, EvExec code (create_safe_globals ++ params),
                       EvCall g main params'])))"
  using assms
  by (simp add: execute_code_safely_def Let_def split: option.splits run.splits prod.splits)

lemma exec_run:
  assumes "set_resource_limits h = None" and "validate_code h code = Inr ()"
    and "compile_src h code = None"
    and "exec_unit h code (create_safe_globals ++ params) params = Returns (g, params')"
  shows "execute_code_safely h code params =
           (case g ''main'' of
              None \<Rightarrow> (Returns (error_result ''No main function defined'' None),
                        [EvCompile code, EvExec code (create_safe_globals ++ params)])
            | Some main \<Rightarrow>
                (case py_call h g main params' of
                   Raises e \<Rightarrow> handle_exn h e
                 | Hangs \<Rightarrow> Hangs
                 | Killed \<Rightarrow> Killed
                 | Returns v \<Rightarrow> Returns (success_result v),
                 [EvCompile code, EvExec code (create_safe_globals ++ params),
                  EvCall g main params']))"
  using compiled_run [OF assms(1-3), of params] assms(4) by simp




lemma worker_raises_non_exception:
  assumes "fst (execute_code_safely h code params) = Raises e"
  shows "\<exists>m. e = NonException m"
proof -
  have h: "\<And>x. handle_exn h x = Raises e \<Longrightarrow> \<exists>m. e = NonException m"
  proof -
    fix x assume "handle_exn h x = Raises e"
    then show "\<exists>m. e = NonException m" by (cases x) auto
  qed
  from assms show ?thesis
    by (auto simp: execute_code_safely_def Let_def dest: h
             split: option.splits sum.splits run.splits prod.splits)
qed

lemma pickle_error_data: "callables_in v = [] \<Longrightarrow> pickle_error h v = None"
  by (simp add: pickle_error_def)

lemma pickle_error_None: "pickle_error h PNone = None"
  by (simp add: pickle_error_def)

lemma delivered_error_result:
  assumes "fst (execute_code_safely h code params) = Returns (error_result m tb)"
  shows "execute_code_in_process h code params = Inr (error_result m tb)"
proof -
  have "pickle_error h (result (error_result m tb)) = None"
    by (simp add: error_result_def pickle_error_None)
  with assms show ?thesis by (simp add: execute_code_in_process_def)
qed

lemma delivered_success_result:
  assumes "fst (execute_code_safely h code params) = Returns (success_result v)"
    and "pickle_error h v = None"
  shows "execute_code_in_process h code params = Inr (success_result v)"
proof -
  have "pickle_error h (result (success_result v)) = None"
    using assms(2) by (simp add: success_result_def)
  with assms(1) show ?thesis by (simp add: execute_code_in_process_def)
qed


text \<open>Only an exception that is not an instance of \<^verbatim>\<open>Exception\<close> leaves the pipeline.\<close>

lemma escape_is_non_exception:
  assumes "execute_code_in_process h code params = Inl e"
  shows "\<exists>m. e = NonException m \<and> fst (execute_code_safely h code params) = Raises e"
proof (cases "fst (execute_code_safely h code params)")
  case (Raises e')
  from worker_raises_non_exception [OF Raises] obtain m where "e' = NonException m" by blast
  with assms Raises show ?thesis by (auto simp: execute_code_in_process_def)
next
  case (Returns r)
  with assms show ?thesis
    by (auto simp: execute_code_in_process_def split: option.splits)
qed (use assms in \<open>simp_all add: execute_code_in_process_def\<close>)



section \<open>The scenarios, evaluated\<close>

lemma demo_host_ok: "host_ok demo_host"
  by (simp add: host_ok_def demo_host_def FORBIDDEN_MODULES_def)

lemma demo_limits: "set_resource_limits demo_host = None"
  by (simp add: set_resource_limits_def demo_host_def)

lemma demo_compile: "compile_src demo_host code = None"
  by (simp add: demo_host_def)

lemma demo_validate_sum: "validate_code demo_host snippet_sum = Inr ()"
  by (simp add: validate_code_def demo_host_def snippet_sum_def)



lemma demo_validate_base: "validate_code demo_host snippet_base = Inr ()"
  by (simp add: validate_code_def demo_host_def snippet_base_def)


lemma demo_validate_append: "validate_code demo_host snippet_append = Inr ()"
  by (simp add: validate_code_def demo_host_def snippet_append_def)

lemma demo_validate_os:
  "validate_code demo_host snippet_os = Inl (SecurityError (import_message ''os''))"
  by (simp add: validate_code_def demo_host_def snippet_os_def)



lemma demo_exec_base:
  "exec_unit demo_host snippet_base g p = Returns (g(''main'' \<mapsto> PFunc 2), p)"
proof -
  have "snippet_base \<noteq> snippet_sum" "snippet_base \<noteq> snippet_pass"
    by (simp_all add: snippet_pass_def snippet_sum_def snippet_base_def)
  then show ?thesis by (simp add: demo_host_def demo_exec_def)
qed


lemma demo_exec_import_list:
  "exec_unit demo_host snippet_import_list g p = Raises (OtherException ''__import__ not found'')"
proof -
  have "snippet_import_list \<noteq> snippet_sum" "snippet_import_list \<noteq> snippet_pass"
       "snippet_import_list \<noteq> snippet_base" "snippet_import_list \<noteq> snippet_assign"
    by (simp_all add: snippet_pass_def snippet_sum_def snippet_base_def snippet_assign_def
        snippet_import_list_def)
  then show ?thesis by (simp add: demo_host_def demo_exec_def)
qed


lemma demo_exec_append:
  "exec_unit demo_host snippet_append (create_safe_globals ++ params_xs) params_xs =
     Returns ((create_safe_globals ++ params_xs)
                (''xs'' \<mapsto> PList [PInt 1, PInt 2], ''main'' \<mapsto> PFunc 4),
              [''xs'' \<mapsto> PList [PInt 1, PInt 2]])"
proof -
  have "snippet_append \<noteq> snippet_sum" "snippet_append \<noteq> snippet_pass"
       "snippet_append \<noteq> snippet_base" "snippet_append \<noteq> snippet_assign"
       "snippet_append \<noteq> snippet_import_list" "snippet_append \<noteq> snippet_probe"
    by (simp_all add: snippet_pass_def snippet_sum_def snippet_base_def snippet_assign_def
        snippet_import_list_def snippet_probe_def snippet_append_def)
  then show ?thesis by (simp add: demo_host_def demo_exec_def params_xs_def)
qed



lemma demo_call_base: "py_call demo_host g (PFunc 2) kwargs = Raises (NonException ''boom'')"
  by (simp add: py_call_def demo_host_def demo_call_def)


lemma demo_call_append:
  "kwargs ''xs'' = Some v \<Longrightarrow> py_call demo_host g (PFunc 4) kwargs = Returns v"
  by (simp add: py_call_def demo_host_def demo_call_def)



lemma demo_run_base:
  "execute_code_safely demo_host snippet_base Map.empty =
     (Raises (NonException ''boom''),
      [EvCompile snippet_base, EvExec snippet_base (create_safe_globals ++ Map.empty),
       EvCall ((create_safe_globals ++ Map.empty)(''main'' \<mapsto> PFunc 2)) (PFunc 2) Map.empty])"
  using exec_run [OF demo_limits demo_validate_base demo_compile demo_exec_base, of Map.empty]
  by (simp add: demo_call_base)


lemma demo_textual_os: "textual_denylisted snippet_os"
  by (simp add: textual_denylisted_def FORBIDDEN_MODULES_def textual_import_def snippet_os_def)

lemma no_memory_limit_fails:
  "set_resource_limits no_memory_limit_host = Some ''current limit exceeds maximum limit''"
  by (simp add: set_resource_limits_def no_memory_limit_host_def demo_host_def)

text \<open>
  Limits are installed before the text is validated: on a system that refuses one of
  them, the outcome of scenario 2 is the error of \<^verbatim>\<open>setrlimit\<close>, with a traceback, and not
  a security violation.
\<close>

lemma limit_failure_masks_security_violation:
  "host_ok no_memory_limit_host \<and> textual_denylisted snippet_os \<and>
   spec_denylisted_import snippet_os \<and>
   execute_code_in_process no_memory_limit_host snippet_os Map.empty =
     Inr (error_result ''current limit exceeds maximum limit''
            (Some ''Traceback (most recent call last): current limit exceeds maximum limit''))"
proof -
  have "host_ok no_memory_limit_host"
    using demo_host_ok by (simp add: host_ok_def no_memory_limit_host_def)
  moreover have "spec_denylisted_import snippet_os"
    by (simp add: spec_denylisted_import_def spec_statements_def spec_import_targets_def
        spec_words_def names_module_def FORBIDDEN_MODULES_def snippet_os_def)
  moreover have "format_exc no_memory_limit_host (OtherException ''current limit exceeds maximum limit'')
     = ''Traceback (most recent call last): current limit exceeds maximum limit''"
    by (simp add: no_memory_limit_host_def demo_host_def)
  ultimately show ?thesis
    using limits_fail_run [OF no_memory_limit_fails, of snippet_os Map.empty] demo_textual_os
    by (simp add: delivered_error_result)
qed

text \<open>
  The objects of \<^verbatim>\<open>params\<close> are shared with the globals: top-level code that appends to
  the list \<^verbatim>\<open>xs\<close> changes what \<^verbatim>\<open>main(**params)\<close> receives. The request has \<^verbatim>\<open>xs = [1]\<close>; the
  entry point receives, and returns, \<^verbatim>\<open>[1, 2]\<close>.
\<close>

lemma toplevel_code_changes_arguments:
  "params_xs ''xs'' = Some (PList [PInt 1]) \<and>
   execute_code_in_process demo_host snippet_append params_xs =
     Inr \<lparr>status = ''success'', result = PList [PInt 1, PInt 2], error = None,
          traceback = None\<rparr> \<and>
   events demo_host snippet_append params_xs =
     [EvCompile snippet_append, EvExec snippet_append (create_safe_globals ++ params_xs),
      EvCall ((create_safe_globals ++ params_xs)
                (''xs'' \<mapsto> PList [PInt 1, PInt 2], ''main'' \<mapsto> PFunc 4))
             (PFunc 4) [''xs'' \<mapsto> PList [PInt 1, PInt 2]]]"
proof -
  have c: "py_call demo_host
             ((create_safe_globals ++ params_xs)
                (''xs'' \<mapsto> PList [PInt 1, PInt 2], ''main'' \<mapsto> PFunc 4))
             (PFunc 4) [''xs'' \<mapsto> PList [PInt 1, PInt 2]] = Returns (PList [PInt 1, PInt 2])"
    by (rule demo_call_append) simp
  have r: "execute_code_safely demo_host snippet_append params_xs =
     (Returns (success_result (PList [PInt 1, PInt 2])),
      [EvCompile snippet_append, EvExec snippet_append (create_safe_globals ++ params_xs),
       EvCall ((create_safe_globals ++ params_xs)
                (''xs'' \<mapsto> PList [PInt 1, PInt 2], ''main'' \<mapsto> PFunc 4))
             (PFunc 4) [''xs'' \<mapsto> PList [PInt 1, PInt 2]]])"
    using exec_run [OF demo_limits demo_validate_append demo_compile demo_exec_append] c
    by simp
  have "pickle_error demo_host (PList [PInt 1, PInt 2]) = None"
    by (simp add: pickle_error_def)
  with r have "execute_code_in_process demo_host snippet_append params_xs =
     Inr (success_result (PList [PInt 1, PInt 2]))"
    by (simp add: delivered_success_result)
  with r show ?thesis
    by (simp add: events_def success_result_def params_xs_def)
qed

section \<open>The claims\<close>

subsection \<open>C1\<close>




subsection \<open>C3\<close>

text \<open>
  Claim C3, as stated, fails. \<^verbatim>\<open>import json, os\<close> imports the denylisted module \<^verbatim>\<open>os\<close> as the
  second name of an \<^verbatim>\<open>import\<close> statement. The text has neither \<^verbatim>\<open>import os\<close> nor \<^verbatim>\<open>from os\<close>
  as a substring, so the validator accepts it, and the snippet is compiled and
  executed; the statement then fails for want of \<^verbatim>\<open>__import__\<close> in the restricted
  builtins, which gives an ordinary runtime error with a traceback.
\<close>

theorem listed_denylisted_import_is_executed:
  "spec_denylisted_import snippet_import_list \<and>
   validate_code demo_host snippet_import_list = Inr () \<and>
   execute_code_in_process demo_host snippet_import_list Map.empty =
     Inr (error_result ''__import__ not found''
            (Some ''Traceback (most recent call last): __import__ not found'')) \<and>
   events demo_host snippet_import_list Map.empty =
     [EvCompile snippet_import_list,
      EvExec snippet_import_list (create_safe_globals ++ Map.empty)]"
proof -
  have s: "spec_denylisted_import snippet_import_list"
    by (simp add: spec_denylisted_import_def spec_statements_def spec_import_targets_def
        spec_words_def names_module_def FORBIDDEN_MODULES_def snippet_import_list_def)
  have v: "validate_code demo_host snippet_import_list = Inr ()"
    by (simp add: validate_code_def demo_host_def snippet_import_list_def)
  have f: "format_exc demo_host (OtherException ''__import__ not found'') =
      ''Traceback (most recent call last): __import__ not found''"
    by (simp add: demo_host_def)
  have r: "execute_code_safely demo_host snippet_import_list Map.empty =
      (Returns (error_result ''__import__ not found''
                 (Some ''Traceback (most recent call last): __import__ not found'')),
       [EvCompile snippet_import_list,
        EvExec snippet_import_list (create_safe_globals ++ Map.empty)])"
    using compiled_run [OF demo_limits v demo_compile, of Map.empty] demo_exec_import_list f
    by simp
  then have "fst (execute_code_safely demo_host snippet_import_list Map.empty) =
      Returns (error_result ''__import__ not found''
                 (Some ''Traceback (most recent call last): __import__ not found''))"
    by simp
  from delivered_error_result [OF this] r s v show ?thesis by (simp add: events_def)
qed

text \<open>
  Claim C3, amended. When the five limits install, every text that has \<^verbatim>\<open>import m\<close> or
  \<^verbatim>\<open>from m\<close> as a substring, for a denylisted \<open>m\<close>, gives the security violation whose
  message names such an \<open>m\<close>, for every \<open>params\<close>; nothing is compiled, executed or
  called.
\<close>

theorem denylisted_text_is_security_violation:
  assumes "host_ok h" and "set_resource_limits h = None" and "textual_denylisted code"
  shows "\<exists>m \<in> FORBIDDEN_MODULES.
           textual_import m code \<and>
           py_in m (''Security violation: '' @ import_message m) \<and>
           execute_code_in_process h code params =
             Inr (error_result (''Security violation: '' @ import_message m) None) \<and>
           events h code params = []"
proof -
  from validate_code_denylisted [OF assms(1) assms(3)] obtain m where
    m: "m \<in> FORBIDDEN_MODULES" "textual_import m code"
       "validate_code h code = Inl (SecurityError (import_message m))"
    by blast
  from rejected_run [OF assms(2) m(3), of params] have
    "execute_code_in_process h code params =
       Inr (error_result (''Security violation: '' @ import_message m) None)"
    "events h code params = []"
    by (simp_all add: delivered_error_result events_def)
  with m message_names_module [of m] show ?thesis by blast
qed

text \<open>Scenario 2 of the spec: the message names \<^verbatim>\<open>os\<close>.\<close>

theorem denylisted_text_is_security_violation_witness:
  "host_ok demo_host \<and> set_resource_limits demo_host = None \<and> textual_denylisted snippet_os \<and>
   execute_code_in_process demo_host snippet_os Map.empty =
     Inr (error_result (''Security violation: Importing module '' @ [CHR 0x27] @ ''os'' @ [CHR 0x27] @ '' is not allowed'') None) \<and>
   py_in ''os'' (''Security violation: Importing module '' @ [CHR 0x27] @ ''os'' @ [CHR 0x27] @ '' is not allowed'') \<and>
   events demo_host snippet_os Map.empty = []"
proof -
  from denylisted_text_is_security_violation [OF demo_host_ok demo_limits demo_textual_os, of Map.empty]
  obtain m where m: "execute_code_in_process demo_host snippet_os Map.empty =
      Inr (error_result (''Security violation: '' @ import_message m) None)"
      "events demo_host snippet_os Map.empty = []" "py_in m (''Security violation: '' @ import_message m)"
    by blast
  have "execute_code_in_process demo_host snippet_os Map.empty =
      Inr (error_result (''Security violation: '' @ import_message ''os'') None)"
    using rejected_run [OF demo_limits demo_validate_os, of Map.empty]
    by (simp add: delivered_error_result)
  with m(1) have "import_message m = import_message ''os''"
    by (simp add: error_result_def)
  then have "m = ''os''" by (simp add: import_message_def)
  with m demo_host_ok demo_limits demo_textual_os show ?thesis
    by (simp add: import_message_def)
qed

subsection \<open>C4\<close>

text \<open>
  Claim C4. If installing any of the five limits fails, the worker returns, and
  \<^verbatim>\<open>execute_code_in_process\<close> returns, an error record (the message of the failure and a
  traceback), and nothing is compiled, executed or called.
\<close>

theorem limit_failure_is_fatal:
  assumes "setrlimit h RLIMIT_CPU (CPU_TIME, CPU_TIME) \<noteq> None \<or>
           setrlimit h RLIMIT_AS (MEMORY, MEMORY) \<noteq> None \<or>
           setrlimit h RLIMIT_FSIZE (FILE_SIZE, FILE_SIZE) \<noteq> None \<or>
           setrlimit h RLIMIT_NPROC (PROCESSES, PROCESSES) \<noteq> None \<or>
           setrlimit h RLIMIT_NOFILE (OPEN_FILES, OPEN_FILES) \<noteq> None"
  shows "\<exists>m. fst (execute_code_safely h code params) =
               Returns (error_result m (Some (format_exc h (OtherException m)))) \<and>
             execute_code_in_process h code params =
               Inr (error_result m (Some (format_exc h (OtherException m)))) \<and>
             status (error_result m (Some (format_exc h (OtherException m)))) = ''error'' \<and>
             events h code params = []"
proof -
  from assms have "set_resource_limits h \<noteq> None"
    by (simp add: set_resource_limits_None)
  then obtain m where "set_resource_limits h = Some m" by blast
  from limits_fail_run [OF this, of code params] show ?thesis
    by (simp add: delivered_error_result events_def) (simp add: error_result_def)
qed

theorem limit_failure_is_fatal_witness:
  "setrlimit no_memory_limit_host RLIMIT_AS (MEMORY, MEMORY) \<noteq> None \<and>
   validate_code no_memory_limit_host snippet_sum = Inr () \<and>
   execute_code_in_process no_memory_limit_host snippet_sum params_xy =
     Inr (error_result ''current limit exceeds maximum limit''
            (Some ''Traceback (most recent call last): current limit exceeds maximum limit'')) \<and>
   events no_memory_limit_host snippet_sum params_xy = []"
proof -
  have a: "setrlimit no_memory_limit_host RLIMIT_AS (MEMORY, MEMORY) \<noteq> None"
    by (simp add: no_memory_limit_host_def)
  have v: "validate_code no_memory_limit_host snippet_sum = Inr ()"
    using demo_validate_sum by (simp add: validate_code_def no_memory_limit_host_def)
  have f: "format_exc no_memory_limit_host (OtherException ''current limit exceeds maximum limit'')
     = ''Traceback (most recent call last): current limit exceeds maximum limit''"
    by (simp add: no_memory_limit_host_def demo_host_def)
  have r: "execute_code_in_process no_memory_limit_host snippet_sum params_xy =
     Inr (error_result ''current limit exceeds maximum limit''
            (Some ''Traceback (most recent call last): current limit exceeds maximum limit''))"
    using limits_fail_run [OF no_memory_limit_fails, of snippet_sum params_xy] f
    by (simp add: delivered_error_result)
  from a have "setrlimit no_memory_limit_host RLIMIT_CPU (CPU_TIME, CPU_TIME) \<noteq> None \<or>
           setrlimit no_memory_limit_host RLIMIT_AS (MEMORY, MEMORY) \<noteq> None \<or>
           setrlimit no_memory_limit_host RLIMIT_FSIZE (FILE_SIZE, FILE_SIZE) \<noteq> None \<or>
           setrlimit no_memory_limit_host RLIMIT_NPROC (PROCESSES, PROCESSES) \<noteq> None \<or>
           setrlimit no_memory_limit_host RLIMIT_NOFILE (OPEN_FILES, OPEN_FILES) \<noteq> None"
    by blast
  from limit_failure_is_fatal [OF this, of snippet_sum params_xy]
  have "events no_memory_limit_host snippet_sum params_xy = []" by blast
  with a v r show ?thesis by blast
qed

subsection \<open>C5\<close>

text \<open>
  Claim C5 asks that no exception of the snippet leaves \<^verbatim>\<open>execute_code_in_process\<close>. Both
  handlers catch \<^verbatim>\<open>Exception\<close> only: a snippet that passes validation and raises an
  instance of \<^verbatim>\<open>BaseException\<close> itself leaves the worker's function and then
  \<^verbatim>\<open>execute_code_in_process\<close> with the raw exception.
\<close>

theorem base_exception_leaves_pipeline:
  "validate_code demo_host snippet_base = Inr () \<and>
   fst (execute_code_safely demo_host snippet_base Map.empty) = Raises (NonException ''boom'') \<and>
   execute_code_in_process demo_host snippet_base Map.empty = Inl (NonException ''boom'')"
  by (simp add: demo_validate_base demo_run_base execute_code_in_process_def)

subsection \<open>C6\<close>




subsection \<open>C7\<close>

text \<open>
  Claim C7, as stated, fails: the validator looks for substrings. The text
  \<^verbatim>\<open>import sysconfig\<close> has one import statement, whose target is not denylisted, no call
  of a dynamic-evaluation primitive and no call that opens a file; it is rejected by
  the first check, for the module \<^verbatim>\<open>sys\<close>.
\<close>

theorem substring_rejects_without_denylisted_import:
  "host_ok demo_host \<and>
   validate_code demo_host snippet_sysconfig = Inl (SecurityError (import_message ''sys'')) \<and>
   \<not> spec_denylisted_import snippet_sysconfig \<and>
   \<not> spec_dynamic_eval snippet_sysconfig \<and>
   \<not> spec_opens_file snippet_sysconfig"
proof -
  have "validate_code demo_host snippet_sysconfig = Inl (SecurityError (import_message ''sys''))"
    by (simp add: validate_code_def demo_host_def snippet_sysconfig_def)
  moreover have "\<not> spec_denylisted_import snippet_sysconfig"
    by (simp add: spec_denylisted_import_def spec_statements_def spec_import_targets_def
        spec_words_def names_module_def FORBIDDEN_MODULES_def snippet_sysconfig_def)
  moreover have "\<not> spec_dynamic_eval snippet_sysconfig"
    by (simp add: spec_dynamic_eval_def snippet_sysconfig_def)
  moreover have "\<not> spec_opens_file snippet_sysconfig"
    by (simp add: spec_opens_file_def snippet_sysconfig_def)
  ultimately show ?thesis using demo_host_ok by blast
qed

text \<open>
  Claim C7, amended. \<^verbatim>\<open>validate_code\<close> accepts a text exactly when it has none of these
  substrings: \<^verbatim>\<open>import m\<close> or \<^verbatim>\<open>from m\<close> for a denylisted \<open>m\<close>; \<^verbatim>\<open>eval(\<close> or \<^verbatim>\<open>exec(\<close>;
  \<^verbatim>\<open>open(\<close> or \<^verbatim>\<open>file(\<close>. The three tests are made in this order, and the first that
  succeeds gives the message; the import message names a module whose pattern occurs.
\<close>

theorem validate_code_is_textual:
  assumes "host_ok h"
  shows "((validate_code h code = Inr ()) =
            (\<not> textual_denylisted code \<and> \<not> textual_eval code \<and> \<not> textual_file code)) \<and>
         (textual_denylisted code \<longrightarrow>
            (\<exists>m \<in> FORBIDDEN_MODULES. textual_import m code \<and>
               validate_code h code = Inl (SecurityError (import_message m)))) \<and>
         (\<not> textual_denylisted code \<and> textual_eval code \<longrightarrow>
            validate_code h code = Inl (SecurityError ''Using eval() or exec() is not allowed'')) \<and>
         (\<not> textual_denylisted code \<and> \<not> textual_eval code \<and> textual_file code \<longrightarrow>
            validate_code h code = Inl (SecurityError ''File operations are not allowed''))"
proof (cases "textual_denylisted code")
  case True
  from validate_code_denylisted [OF assms True] True show ?thesis by auto
next
  case False
  from validate_code_not_denylisted [OF assms False] False show ?thesis by auto
qed

theorem validate_code_is_textual_witness:
  "host_ok demo_host \<and>
   validate_code demo_host snippet_sum = Inr () \<and>
   \<not> textual_denylisted snippet_sum \<and> \<not> textual_eval snippet_sum \<and> \<not> textual_file snippet_sum \<and>
   \<not> textual_denylisted snippet_retrieval \<and> textual_eval snippet_retrieval \<and>
   validate_code demo_host snippet_retrieval =
     Inl (SecurityError ''Using eval() or exec() is not allowed'')"
proof -
  from validate_code_is_textual [OF demo_host_ok, of snippet_sum] demo_validate_sum
  have a: "\<not> textual_denylisted snippet_sum \<and> \<not> textual_eval snippet_sum \<and> \<not> textual_file snippet_sum"
    by simp
  have d: "\<not> textual_denylisted snippet_retrieval"
    by (simp add: textual_denylisted_def FORBIDDEN_MODULES_def textual_import_def
        snippet_retrieval_def)
  have e: "textual_eval snippet_retrieval"
    by (simp add: textual_eval_def snippet_retrieval_def)
  from validate_code_is_textual [OF demo_host_ok, of snippet_retrieval] d e
  have b: "validate_code demo_host snippet_retrieval =
     Inl (SecurityError ''Using eval() or exec() is not allowed'')"
    by blast
  from a b d e demo_host_ok demo_validate_sum show ?thesis by blast
qed

subsection \<open>C8\<close>



subsection \<open>C9\<close>



subsection \<open>C10\<close>



end
